theory Spec2Isabelle
  imports Main
begin

section \<open>Data model\<close>

text \<open>
  The package \<open>nerr\<close> has one struct, \<open>Error\<close>, with the fields \<open>Op\<close>, \<open>Code\<close>, \<open>Place\<close>
  and \<open>Err\<close>. The field \<open>Err\<close> is a Go \<open>error\<close> interface value, which is the nil interface,
  a pointer to an \<open>Error\<close> struct, or an error of some other package (a driver error, the
  result of \<open>errors.New\<close>). A foreign error is seen by this package only through its
  \<open>Error()\<close> text, which is what \<open>Foreign\<close> carries. A pointer is identified with the struct
  it points to; typed nil pointers are not modelled. \<open>Code\<close> is a Go \<open>int\<close>: the package
  never computes with it, so its width plays no role and it is an \<open>int\<close> here.
\<close>

datatype error = nil | PtrError Error | Foreign string
and Error = Error (Op: string) (Code: int) (Place: string) (Err: error)

text \<open>A call either panics with a message or returns.\<close>

datatype 'a outcome = Panic string | Return 'a

section \<open>Library functions the package calls\<close>

text \<open>\<open>strings.Join(elems, sep)\<close>.\<close>

fun Join :: "string list \<Rightarrow> string \<Rightarrow> string" where
  "Join [] sep = []"
| "Join [x] sep = x"
| "Join (x # y # ys) sep = x @ sep @ Join (y # ys) sep"

text \<open>\<open>strconv.Itoa\<close> and the verb \<open>%d\<close>: the decimal digits, with a minus sign.\<close>

fun digits :: "nat \<Rightarrow> string" where
  "digits n = (if n < 10 then [''0123456789'' ! n]
               else digits (n div 10) @ [''0123456789'' ! (n mod 10)])"

declare digits.simps [simp del]

definition Itoa :: "int \<Rightarrow> string" where
  "Itoa i = (if i < 0 then CHR ''-'' # digits (nat (- i)) else digits (nat i))"

section \<open>Chain traversal\<close>

fun TopCode :: "error \<Rightarrow> int" where
  "TopCode nil = 0"
| "TopCode (PtrError (Error op code place cause)) = (if code \<noteq> 0 then code else TopCode cause)"
| "TopCode (Foreign s) = 0"


fun Trace :: "error \<Rightarrow> string list" where
  "Trace nil = []"
| "Trace (PtrError (Error op code place cause)) =
     (let info = [place];
          info = (if length op > 0 then info @ [''op: '' @ op] else info);
          info = (if code \<noteq> 0 then info @ [''code: '' @ Itoa code] else info);
          res = [Join info ''; '']
      in if cause \<noteq> nil then res @ Trace cause else res)"
| "Trace (Foreign s) = []"

fun IsCode :: "error \<Rightarrow> int \<Rightarrow> bool" where
  "IsCode nil code = False"
| "IsCode (PtrError (Error op c place cause)) code =
     (if TopCode (PtrError (Error op c place cause)) = code then True
      else if cause \<noteq> nil then IsCode cause code
      else False)"
| "IsCode (Foreign s) code = (if TopCode (Foreign s) = code then True else False)"

section \<open>Rendering\<close>

text \<open>
  \<open>error_text e\<close> is what \<open>e.Error()\<close> returns for a non-nil error \<open>e\<close>, and what the verb
  \<open>%v\<close> prints for any error value (\<open><nil>\<close> for the nil interface). The equation for
  \<open>PtrError\<close> is the method \<open>(*Error).Error\<close>, which calls itself on the cause.
\<close>

fun error_text :: "error \<Rightarrow> string" where
  "error_text nil = ''<nil>''"
| "error_text (Foreign s) = s"
| "error_text (PtrError (Error op code place cause)) =
     (let e = PtrError (Error op code place cause);
          res = [];
          res = (if length op > 0 then res @ [''op: '' @ op] else res);
          code = TopCode e;
          res = (if code > 0 then res @ [''code: '' @ Itoa code] else res);
          trace = Trace e;
          res = (if length trace > 0 then res @ [''source: '' @ trace ! (length trace - 1)] else res)
      in if length res = 0 \<and> cause = nil then ''undefined''
         else let s = Join res '', ''
              in if cause \<noteq> nil
                 then (if length s = 0 then error_text cause else s @ '' => '' @ error_text cause)
                 else s)"

definition Error_Error :: "Error \<Rightarrow> string" where
  "Error_Error e = error_text (PtrError e)"

section \<open>Unwrapping and matching\<close>

text \<open>The method \<open>(*Error).Unwrap\<close>.\<close>

definition Error_Unwrap :: "Error \<Rightarrow> error" where
  "Error_Unwrap e = (if Err e = nil then PtrError e else Err e)"

text \<open>
  \<open>Unwrap\<close> is \<open>errors.Unwrap\<close> of the standard library: it calls the \<open>Unwrap\<close> method of
  its argument when the argument has one, and returns nil otherwise. Foreign errors are
  taken to have no \<open>Unwrap\<close> and no \<open>Is\<close> method.
\<close>

definition Unwrap :: "error \<Rightarrow> error" where
  "Unwrap err = (case err of PtrError e \<Rightarrow> Error_Unwrap e | _ \<Rightarrow> nil)"

text \<open>
  \<open>Is\<close> is \<open>errors.Is\<close> of the standard library: after the test for a nil argument it
  loops, comparing \<open>err\<close> with \<open>target\<close> and replacing \<open>err\<close> by its unwrapping until that
  is nil. The loop need not end, so it is a partial function: \<open>None\<close> is a call that
  never returns.
\<close>

partial_function (option) errors_is :: "error \<Rightarrow> error \<Rightarrow> bool option" where
  "errors_is err target =
     (if err = target then Some True
      else case err of
             PtrError e \<Rightarrow>
               (let err' = Error_Unwrap e
                in if err' = nil then Some False else errors_is err' target)
           | _ \<Rightarrow> Some False)"

definition Is :: "error \<Rightarrow> error \<Rightarrow> bool option" where
  "Is err target = (if err = nil \<or> target = nil then Some (err = target) else errors_is err target)"

section \<open>Construction\<close>

text \<open>
  The arguments of \<open>New\<close> and \<open>NewLevel\<close> have the type \<open>any\<close>. The constructors are the
  dynamic types that \<open>prepareProperty\<close> tells apart: an error value (\<open>ErrorV nil\<close> is the
  nil interface), a \<open>string\<close>, an \<open>eno.ErrNo\<close>, an \<open>int\<close>, \<open>int8\<close> or \<open>int32\<close>, a \<open>[]error\<close>,
  a \<open>[]any\<close>, and a value of any other type, given by the name of its type and by what
  \<open>%v\<close> prints for it. A foreign error is of none of the types that the type switch
  lists before \<open>error\<close>.
\<close>

datatype any =
    ErrorV error
  | StringV string
  | ErrNoV int
  | IntV int
  | Int8V int
  | Int32V int
  | ErrorsV "error list"
  | SliceV "any list"
  | OtherV string string

text \<open>
  The package \<open>eno\<close> is not part of the repository: \<open>eno.Name\<close> and the text that \<open>%v\<close>
  prints for an \<open>eno.ErrNo\<close> are parameters.
\<close>

record eno =
  eno_Name :: "int \<Rightarrow> string"
  eno_text :: "int \<Rightarrow> string"

text \<open>\<open>fmt.Sprintf("%v", a)\<close>.\<close>

fun fmt_v :: "eno \<Rightarrow> any \<Rightarrow> string" where
  "fmt_v x (ErrorV e) = error_text e"
| "fmt_v x (StringV s) = s"
| "fmt_v x (ErrNoV n) = eno_text x n"
| "fmt_v x (IntV i) = Itoa i"
| "fmt_v x (Int8V i) = Itoa i"
| "fmt_v x (Int32V i) = Itoa i"
| "fmt_v x (ErrorsV es) = ''['' @ Join (map error_text es) '' '' @ '']''"
| "fmt_v x (SliceV vs) = ''['' @ Join (map (fmt_v x) vs) '' '' @ '']''"
| "fmt_v x (OtherV ty txt) = txt"

text \<open>
  \<open>prepareProperty\<close> updates the struct behind its pointer argument and returns a
  boolean: the model returns the updated struct with the boolean, or the panic.
\<close>

function (sequential) prepareProperty :: "eno \<Rightarrow> Error \<Rightarrow> any \<Rightarrow> (Error \<times> bool) outcome" where
  "prepareProperty x e (ErrorV nil) = Return (e, False)"
| "prepareProperty x e (StringV v) =
     (if length (Op e) > 0
      then (if length v > 0 \<and> Op e \<noteq> v
            then Return (Error (Op e @ '', '' @ v) (Code e) (Place e) (Err e), True)
            else Return (e, True))
      else Return (Error v (Code e) (Place e) (Err e), True))"
| "prepareProperty x e (ErrNoV v) =
     (if length (Op e) = 0
      then Return (Error (eno_Name x v) v (Place e) (Err e), True)
      else Return (Error (Op e) v (Place e) (Err e), True))"
| "prepareProperty x e (IntV v) =
     (if Code e \<noteq> 0 then Panic ''code duplication''
      else Return (Error (Op e) v (Place e) (Err e), True))"
| "prepareProperty x e (Int8V v) =
     (if Code e \<noteq> 0 then Panic ''code duplication''
      else Panic ''interface conversion: interface {} is int8, not int'')"
| "prepareProperty x e (Int32V v) =
     (if Code e \<noteq> 0 then Panic ''code duplication''
      else Panic ''interface conversion: interface {} is int32, not int'')"
| "prepareProperty x e (ErrorsV [v0]) = prepareProperty x e (ErrorV v0)"
| "prepareProperty x e (ErrorsV v) =
     (let errs = map error_text (filter (\<lambda>e. e \<noteq> nil) v)
      in if length errs > 0
         then (if Err e \<noteq> nil then Panic ''error duplication''
               else Return (Error (Op e) (Code e) (Place e) (Foreign (Join errs '', '')), True))
         else Return (e, False))"
| "prepareProperty x e (SliceV [v0]) = prepareProperty x e v0"
| "prepareProperty x e (SliceV v) =
     (let errs = filter (\<lambda>text. length text > 0)
                   (map (fmt_v x) (filter (\<lambda>e. e \<noteq> ErrorV nil) v))
      in if length errs > 0
         then (if Err e \<noteq> nil then Panic ''error duplication''
               else Return (Error (Op e) (Code e) (Place e) (Foreign (Join errs '', '')), True))
         else Return (e, False))"
| "prepareProperty x e (ErrorV v) =
     (if Err e \<noteq> nil then Panic ''error duplication''
      else Return (Error (Op e) (Code e) (Place e) v, True))"
| "prepareProperty x e (OtherV ty txt) = Panic (''invalid argument type: '' @ ty)"
  by pat_completeness auto
termination
  by (relation "measure (\<lambda>(x, e, a). 2 * size a + (case a of ErrorsV v \<Rightarrow> 1 | _ \<Rightarrow> 0))")
    (auto split: any.splits)

text \<open>The loop of \<open>NewLevel\<close> over its arguments.\<close>

fun NewLevel_loop :: "eno \<Rightarrow> Error \<Rightarrow> any list \<Rightarrow> error outcome" where
  "NewLevel_loop x e [] = Return (PtrError e)"
| "NewLevel_loop x e (arg # args) =
     (case prepareProperty x e arg of
        Panic m \<Rightarrow> Panic m
      | Return (e', ok) \<Rightarrow> if \<not> ok then Return nil else NewLevel_loop x e' args)"

text \<open>
  \<open>caller n\<close> is the text that \<open>NewLevel\<close> formats from \<open>runtime.Caller(n)\<close>, and the empty
  string when \<open>runtime.Caller\<close> reports no frame, where \<open>Place\<close> keeps its zero value.
\<close>

definition NewLevel :: "eno \<Rightarrow> (int \<Rightarrow> string) \<Rightarrow> int \<Rightarrow> any list \<Rightarrow> error outcome" where
  "NewLevel x caller codeLevel args =
     (if length args = 1 \<and>
         (args ! 0 = ErrorV nil \<or> (case args ! 0 of ErrorV e \<Rightarrow> e = nil | _ \<Rightarrow> False))
      then Return nil
      else NewLevel_loop x (Error [] 0 (caller codeLevel) nil) args)"

text \<open>
  \<open>New\<close> calls \<open>NewLevel(2, args)\<close>, without the dots that would spread the slice: the
  variadic parameter of \<open>NewLevel\<close> holds one argument, the slice itself.
\<close>

definition New :: "eno \<Rightarrow> (int \<Rightarrow> string) \<Rightarrow> any list \<Rightarrow> error outcome" where
  "New x caller args = NewLevel x caller 2 [SliceV args]"

section \<open>Definitions used to state the properties\<close>

text \<open>Concrete values for the parameters, for the closed theorems.\<close>

definition demo_eno :: eno where
  "demo_eno = \<lparr>eno_Name = (\<lambda>n. ''E'' @ Itoa n), eno_text = Itoa\<rparr>"

definition demo_caller :: "int \<Rightarrow> string" where
  "demo_caller n = (if n = 2 then ''main.run (main.go:10)'' else [])"

text \<open>
  The top-level code as the specification words it: walk to the cause first, and use the
  node's own code only if the call on the cause gave zero.
\<close>

fun deepest_code :: "error \<Rightarrow> int" where
  "deepest_code nil = 0"
| "deepest_code (PtrError (Error op code place cause)) =
     (let c = deepest_code cause in if c \<noteq> 0 then c else code)"
| "deepest_code (Foreign s) = 0"

text \<open>The codes of the nodes of a chain, outermost first.\<close>

fun node_codes :: "error \<Rightarrow> int list" where
  "node_codes nil = []"
| "node_codes (PtrError (Error op code place cause)) = code # node_codes cause"
| "node_codes (Foreign s) = []"

text \<open>The successive causes of a chain, outermost first, the foreign terminal included.\<close>

fun causes :: "error \<Rightarrow> error list" where
  "causes nil = []"
| "causes (PtrError (Error op code place cause)) = PtrError (Error op code place cause) # causes cause"
| "causes (Foreign s) = [Foreign s]"

text \<open>
  The code membership test as the specification words it: the top-level code equals the
  target, or the immediate cause is itself a node and the test on it finds the target.
\<close>

fun has_code_spec :: "error \<Rightarrow> int \<Rightarrow> bool" where
  "has_code_spec nil code = False"
| "has_code_spec (PtrError (Error op c place cause)) code =
     (TopCode (PtrError (Error op c place cause)) = code \<or>
      (case cause of PtrError e \<Rightarrow> has_code_spec cause code | _ \<Rightarrow> False))"
| "has_code_spec (Foreign s) code = (TopCode (Foreign s) = code)"

text \<open>
  The rendering as the specification words it: the literal \<open>undefined\<close> for a node with no
  operation, no code and no cause, and otherwise the parts for the operation, for a
  non-zero top-level code and for an available trace, joined, with the cause appended.
\<close>

definition render_spec :: "Error \<Rightarrow> string" where
  "render_spec e =
     (if Op e = [] \<and> Code e = 0 \<and> Err e = nil then ''undefined''
      else Join ((if Op e \<noteq> [] then [''op: '' @ Op e] else []) @
                 (if TopCode (PtrError e) \<noteq> 0 then [''code: '' @ Itoa (TopCode (PtrError e))] else []) @
                 (if Trace (PtrError e) \<noteq> [] then [''source: '' @ last (Trace (PtrError e))] else []))
             '', '' @
           (if Err e \<noteq> nil then '' => '' @ error_text (Err e) else []))"

text \<open>The parts of a rendering: the code only when it is positive, the source always.\<close>

definition render_parts :: "Error \<Rightarrow> string list" where
  "render_parts e =
     (if Op e \<noteq> [] then [''op: '' @ Op e] else []) @
     (if 0 < TopCode (PtrError e) then [''code: '' @ Itoa (TopCode (PtrError e))] else []) @
     [''source: '' @ last (Trace (PtrError e))]"

section \<open>Properties\<close>

subsection \<open>Top-level code\<close>

text \<open>
  Claim C1, as amended: \<open>TopCode\<close> returns the code of the outermost node of the chain
  that has a non-zero code. It uses the current node's own code when that is non-zero and
  calls itself on the cause only otherwise; a foreign terminal contributes 0 and nil
  yields 0.
\<close>

theorem TopCode_outermost:
  "TopCode e = (case filter (\<lambda>c. c \<noteq> 0) (node_codes e) of [] \<Rightarrow> 0 | c # cs \<Rightarrow> c) \<and>
   TopCode (PtrError v) = (if Code v \<noteq> 0 then Code v else TopCode (Err v)) \<and>
   TopCode (Foreign s) = 0 \<and> TopCode nil = 0"
proof -
  have "TopCode e = (case filter (\<lambda>c. c \<noteq> 0) (node_codes e) of [] \<Rightarrow> 0 | c # cs \<Rightarrow> c)"
    by (induction e rule: TopCode.induct) simp_all
  moreover have "TopCode (PtrError v) = (if Code v \<noteq> 0 then Code v else TopCode (Err v))"
    by (cases v) simp
  ultimately show ?thesis by simp
qed

text \<open>On a chain of three nodes with the codes 0, 2 and 3 the top-level code is 2.\<close>

theorem TopCode_outermost_witness:
  "TopCode (PtrError (Error ''A'' 0 ''p''
     (PtrError (Error ''B'' 2 ''q'' (PtrError (Error ''C'' 3 ''r'' nil)))))) = 2"
  using TopCode_outermost [of "PtrError (Error ''A'' 0 ''p''
     (PtrError (Error ''B'' 2 ''q'' (PtrError (Error ''C'' 3 ''r'' nil)))))"]
  by simp

text \<open>
  Claim C1 as stated fails: a node with code 1 that wraps a node with code 2 has the
  top-level code 1, where the deepest non-zero code is 2.
\<close>

theorem TopCode_deepest_counterexample:
  "TopCode (PtrError (Error ''A'' 1 ''p'' (PtrError (Error ''B'' 2 ''q'' nil)))) = 1 \<and>
   deepest_code (PtrError (Error ''A'' 1 ''p'' (PtrError (Error ''B'' 2 ''q'' nil)))) = 2"
  by simp

subsection \<open>Unwrapping\<close>

text \<open>
  Claim C7: the \<open>Unwrap\<close> method of a node with no cause returns the node itself, which is
  not nil; for a node with a cause it returns that cause.
\<close>

theorem Error_Unwrap_self_or_cause:
  "(Err e = nil \<longrightarrow> Error_Unwrap e = PtrError e \<and> Error_Unwrap e \<noteq> nil) \<and>
   (Err e \<noteq> nil \<longrightarrow> Error_Unwrap e = Err e)"
  by (simp add: Error_Unwrap_def)

theorem Error_Unwrap_self_or_cause_witness:
  "Error_Unwrap (Error ''A'' 1 ''p'' nil) = PtrError (Error ''A'' 1 ''p'' nil) \<and>
   Error_Unwrap (Error ''A'' 1 ''p'' (Foreign ''boom'')) = Foreign ''boom''"
  using Error_Unwrap_self_or_cause [of "Error ''A'' 1 ''p'' nil"]
        Error_Unwrap_self_or_cause [of "Error ''A'' 1 ''p'' (Foreign ''boom'')"]
  by simp

subsection \<open>Construction through New\<close>

text \<open>
  Claim C2 at the input \<open>New(5, 7)\<close>: \<open>New\<close> hands its two arguments to \<open>NewLevel\<close> as one
  slice, \<open>prepareProperty\<close> takes the branch for \<open>[]any\<close>, and the call returns a node with
  no code whose cause has the text \<open>5, 7\<close>. The same two arguments given to \<open>NewLevel\<close>
  itself panic with \<open>code duplication\<close>.
\<close>

theorem New_two_codes_no_panic:
  "New x caller [IntV 5, IntV 7] = Return (PtrError (Error [] 0 (caller 2) (Foreign ''5, 7''))) \<and>
   NewLevel x caller 2 [IntV 5, IntV 7] = Panic ''code duplication''"
  by (simp add: New_def NewLevel_def Itoa_def digits.simps)

text \<open>
  Claim C3 at the input \<open>New(err1, err2)\<close>: the call returns a node whose cause is a new
  error with the two texts joined. The same two arguments given to \<open>NewLevel\<close> itself
  panic with \<open>error duplication\<close>.
\<close>

theorem New_two_causes_no_panic:
  "New x caller [ErrorV (Foreign ''a''), ErrorV (Foreign ''b'')] =
     Return (PtrError (Error [] 0 (caller 2) (Foreign ''a, b''))) \<and>
   NewLevel x caller 2 [ErrorV (Foreign ''a''), ErrorV (Foreign ''b'')] =
     Panic ''error duplication''"
  by (simp add: New_def NewLevel_def)

text \<open>
  Claim C5 at the inputs \<open>New("A", "A")\<close> and \<open>New("A", "B")\<close>: both calls return a node
  with an empty operation, the labels joined in the text of its cause. The same arguments
  given to \<open>NewLevel\<close> itself yield the operations \<open>A\<close> and \<open>A, B\<close>.
\<close>

theorem New_two_labels_no_operation:
  "New x caller [StringV ''A'', StringV ''A''] =
     Return (PtrError (Error [] 0 (caller 2) (Foreign ''A, A''))) \<and>
   New x caller [StringV ''A'', StringV ''B''] =
     Return (PtrError (Error [] 0 (caller 2) (Foreign ''A, B''))) \<and>
   NewLevel x caller 2 [StringV ''A'', StringV ''A''] =
     Return (PtrError (Error ''A'' 0 (caller 2) nil)) \<and>
   NewLevel x caller 2 [StringV ''A'', StringV ''B''] =
     Return (PtrError (Error ''A, B'' 0 (caller 2) nil))"
  by (simp add: New_def NewLevel_def)

subsection \<open>Absent properties\<close>

lemma NewLevel_loop_append:
  "NewLevel_loop x e0 pre = Return (PtrError e) \<Longrightarrow>
   NewLevel_loop x e0 (pre @ rest) = NewLevel_loop x e rest"
proof (induction pre arbitrary: e0)
  case Nil
  then show ?case by simp
next
  case (Cons a pre)
  then show ?case
    by (cases "prepareProperty x e0 a") (auto split: if_splits)
qed

lemma NewLevel_node_loop:
  "NewLevel x caller l args = Return (PtrError e) \<Longrightarrow>
   NewLevel_loop x (Error [] 0 (caller l) nil) args = Return (PtrError e)"
  by (simp add: NewLevel_def split: if_splits)

lemma NewLevel_nil_after:
  assumes "NewLevel x caller l pre = Return (PtrError e)"
  shows "NewLevel x caller l (pre @ ErrorV nil # post) = Return nil"
proof -
  have "NewLevel_loop x (Error [] 0 (caller l) nil) (pre @ ErrorV nil # post) =
        NewLevel_loop x e (ErrorV nil # post)"
    by (rule NewLevel_loop_append) (rule NewLevel_node_loop [OF assms])
  then show ?thesis by (simp add: NewLevel_def)
qed

text \<open>\<open>NewLevel\<close> called with no arguments returns an empty node.\<close>

lemma NewLevel_no_arguments:
  "NewLevel x caller l [] = Return (PtrError (Error [] 0 (caller l) nil))"
  by (simp add: NewLevel_def)

text \<open>
  Claim C4, as amended: \<open>New(nil)\<close> and \<open>New()\<close> both yield the absent value, and so does
  \<open>NewLevel\<close> with nil as its only property. A nil property is not skipped: when the
  properties before it are accepted (alone they would yield a node), \<open>NewLevel\<close> yields
  the absent value, whatever follows the nil.
\<close>

theorem New_nil_absent:
  "New x caller [ErrorV nil] = Return nil \<and>
   New x caller [] = Return nil \<and>
   NewLevel x caller l [ErrorV nil] = Return nil \<and>
   (\<forall>pre post e. NewLevel x caller l pre = Return (PtrError e) \<longrightarrow>
      NewLevel x caller l (pre @ ErrorV nil # post) = Return nil)"
  using NewLevel_nil_after [of x caller l]
  by (simp add: New_def NewLevel_def)

text \<open>Two accepted properties yield a node; with a nil after them the result is absent.\<close>

theorem New_nil_absent_witness:
  "NewLevel demo_eno demo_caller 2 [StringV ''A'', IntV 5] =
     Return (PtrError (Error ''A'' 5 ''main.run (main.go:10)'' nil)) \<and>
   NewLevel demo_eno demo_caller 2 [StringV ''A'', IntV 5, ErrorV nil, StringV ''B''] = Return nil"
proof -
  have h: "NewLevel demo_eno demo_caller 2 [StringV ''A'', IntV 5] =
     Return (PtrError (Error ''A'' 5 ''main.run (main.go:10)'' nil))"
    by (simp add: NewLevel_def demo_caller_def)
  from New_nil_absent [of demo_eno demo_caller 2] h
  have "NewLevel demo_eno demo_caller 2 ([StringV ''A'', IntV 5] @ ErrorV nil # [StringV ''B'']) = Return nil"
    by blast
  with h show ?thesis by simp
qed

text \<open>
  Claim C4 as stated fails: with \<open>"A"\<close> and nil \<open>NewLevel\<close> yields the absent value and
  \<open>New\<close> a node whose cause has the text \<open>A\<close>; with \<open>"A"\<close> alone both yield a node with
  the operation \<open>A\<close>.
\<close>

theorem New_nil_counterexample:
  "NewLevel demo_eno demo_caller 2 [StringV ''A'', ErrorV nil] = Return nil \<and>
   NewLevel demo_eno demo_caller 2 [StringV ''A''] =
     Return (PtrError (Error ''A'' 0 ''main.run (main.go:10)'' nil)) \<and>
   New demo_eno demo_caller [StringV ''A'', ErrorV nil] =
     Return (PtrError (Error [] 0 ''main.run (main.go:10)'' (Foreign ''A''))) \<and>
   New demo_eno demo_caller [StringV ''A''] =
     Return (PtrError (Error ''A'' 0 ''main.run (main.go:10)'' nil))"
  by (simp add: New_def NewLevel_def demo_caller_def)

subsection \<open>Rendering\<close>

lemma Trace_node_nonempty: "Trace (PtrError e) \<noteq> []"
  by (cases e) (simp add: Let_def)

lemma Join_snoc_nonempty: "y \<noteq> [] \<Longrightarrow> Join (xs @ [y]) sep \<noteq> []"
  by (induction xs sep rule: Join.induct) auto

lemma nth_last: "xs \<noteq> [] \<Longrightarrow> xs ! (length xs - Suc 0) = last xs"
  by (simp add: last_conv_nth)

text \<open>
  Claim C6, as amended: for a node with an operation, a code or a cause, \<open>Error()\<close> is the
  parts \<open>op: <operation>\<close> (iff the operation is not empty), \<open>code: <code>\<close> (iff the
  top-level code is positive) and \<open>source: <last trace entry>\<close> (always: a node has a
  trace), joined with a comma and a space, followed by \<open> => \<close> and the cause's own
  rendering iff there is a cause.
\<close>

theorem Error_render:
  assumes "Op e \<noteq> [] \<or> Code e \<noteq> 0 \<or> Err e \<noteq> nil"
  shows "Error_Error e =
           Join (render_parts e) '', '' @
           (if Err e = nil then [] else '' => '' @ error_text (Err e))"
proof -
  obtain op code place cause where e: "e = Error op code place cause" by (cases e)
  define t where "t = Trace (PtrError (Error op code place cause))"
  define c where "c = TopCode (PtrError (Error op code place cause))"
  let ?pre = "(if op \<noteq> [] then [''op: '' @ op] else []) @
              (if 0 < c then [''code: '' @ Itoa c] else [])"
  have t: "t \<noteq> []" unfolding t_def by (rule Trace_node_nonempty)
  have ne: "Join (?pre @ [''source: '' @ last t]) '', '' \<noteq> []"
    by (rule Join_snoc_nonempty) simp
  have "error_text (PtrError (Error op code place cause)) =
          (let res = [];
               res = (if length op > 0 then res @ [''op: '' @ op] else res);
               code = c;
               res = (if code > 0 then res @ [''code: '' @ Itoa code] else res);
               trace = t;
               res = (if length trace > 0
                      then res @ [''source: '' @ trace ! (length trace - 1)] else res)
           in if length res = 0 \<and> cause = nil then ''undefined''
              else let s = Join res '', ''
                   in if cause \<noteq> nil
                      then (if length s = 0 then error_text cause
                            else s @ '' => '' @ error_text cause)
                      else s)"
    unfolding t_def c_def by (simp only: error_text.simps Let_def)
  also have "\<dots> = Join (?pre @ [''source: '' @ last t]) '', '' @
                   (if cause = nil then [] else '' => '' @ error_text cause)"
    using t ne by (simp add: Let_def nth_last)
  finally show ?thesis
    by (simp add: Error_Error_def render_parts_def e t_def c_def del: Trace.simps TopCode.simps error_text.simps)
qed

text \<open>A node with operation and code that wraps a node that wraps a foreign error.\<close>

theorem Error_render_witness:
  "Error_Error (Error ''A'' 3 ''p'' (PtrError (Error ''B'' 4 ''q'' (Foreign ''boom'')))) =
     ''op: A, code: 3, source: q; op: B; code: 4 => op: B, code: 4, source: q; op: B; code: 4 => boom''"
  using Error_render [of "Error ''A'' 3 ''p'' (PtrError (Error ''B'' 4 ''q'' (Foreign ''boom'')))"]
        Error_render [of "Error ''B'' 4 ''q'' (Foreign ''boom'')"]
  by (simp add: render_parts_def Error_Error_def Itoa_def digits.simps)

text \<open>
  Claim C6 as stated fails twice: a node with no operation, no code and no cause renders
  as its source part and not as \<open>undefined\<close>, and a node with the code -1 has no code part
  although its top-level code is not zero.
\<close>

theorem Error_render_counterexample:
  "Error_Error (Error [] 0 ''p'' nil) = ''source: p'' \<and>
   render_spec (Error [] 0 ''p'' nil) = ''undefined'' \<and>
   Error_Error (Error ''A'' (- 1) ''p'' nil) = ''op: A, source: p; op: A; code: -1'' \<and>
   render_spec (Error ''A'' (- 1) ''p'' nil) = ''op: A, code: -1, source: p; op: A; code: -1''"
  by (simp add: Error_Error_def render_spec_def Itoa_def digits.simps)

subsection \<open>Code membership\<close>

lemma IsCode_causes: "IsCode err code \<longleftrightarrow> (\<exists>x \<in> set (causes err). TopCode x = code)"
  by (induction err code rule: IsCode.induct) auto

text \<open>
  Claim C8, as amended: \<open>IsCode\<close> holds iff the code is the top-level code of the chain
  at some depth, the foreign terminal (whose top-level code is 0) counted as a depth;
  equivalently, iff the top-level code of the chain is the code, or the error is a node
  with a non-nil cause, node or foreign, and \<open>IsCode\<close> on that cause finds the code. On nil
  it is false.
\<close>

theorem IsCode_some_depth:
  "(IsCode err code \<longleftrightarrow> (\<exists>x \<in> set (causes err). TopCode x = code)) \<and>
   (IsCode (PtrError e) code \<longleftrightarrow>
      TopCode (PtrError e) = code \<or> (Err e \<noteq> nil \<and> IsCode (Err e) code)) \<and>
   (IsCode (Foreign s) code \<longleftrightarrow> code = 0) \<and>
   \<not> IsCode nil code"
proof -
  have "IsCode (PtrError e) code \<longleftrightarrow>
      TopCode (PtrError e) = code \<or> (Err e \<noteq> nil \<and> IsCode (Err e) code)"
    by (cases e) auto
  moreover have "IsCode (Foreign s) code \<longleftrightarrow> code = 0" by auto
  ultimately show ?thesis using IsCode_causes by simp
qed

text \<open>The code 42 of the inner node is found; 0 is found on a foreign terminal only.\<close>

theorem IsCode_some_depth_witness:
  "IsCode (PtrError (Error ''A'' 0 ''p'' (PtrError (Error ''B'' 42 ''q'' nil)))) 42 \<and>
   \<not> IsCode (PtrError (Error ''A'' 7 ''p'' (PtrError (Error ''B'' 42 ''q'' nil)))) 0 \<and>
   IsCode (PtrError (Error ''A'' 7 ''p'' (Foreign ''boom''))) 0"
  using IsCode_some_depth [of "PtrError (Error ''A'' 0 ''p'' (PtrError (Error ''B'' 42 ''q'' nil)))" 42]
        IsCode_some_depth [of "PtrError (Error ''A'' 7 ''p'' (PtrError (Error ''B'' 42 ''q'' nil)))" 0]
        IsCode_some_depth [of "PtrError (Error ''A'' 7 ''p'' (Foreign ''boom''))" 0]
  by simp

text \<open>
  Claim C8 as stated fails: for a node with code 5 whose cause is a foreign error and the
  target 0, \<open>IsCode\<close> recurses into the foreign cause and returns true, where the test that
  recurses only into a cause that is a node returns false.
\<close>

theorem IsCode_counterexample:
  "IsCode (PtrError (Error [] 5 [] (Foreign ''boom''))) 0 \<and>
   \<not> has_code_spec (PtrError (Error [] 5 [] (Foreign ''boom''))) 0"
  by simp

subsection \<open>Collections of errors\<close>

lemma prepareProperty_errors:
  "length vs \<noteq> 1 \<Longrightarrow>
   prepareProperty x e (ErrorsV vs) =
     (if filter (\<lambda>v. v \<noteq> nil) vs = [] then Return (e, False)
      else if Err e \<noteq> nil then Panic ''error duplication''
      else Return (Error (Op e) (Code e) (Place e)
                     (Foreign (Join (map error_text (filter (\<lambda>v. v \<noteq> nil) vs)) '', '')), True))"
proof (cases vs)
  case Nil
  then show ?thesis by simp
next
  case (Cons a ws)
  assume "length vs \<noteq> 1"
  with Cons obtain b us where "ws = b # us" by (cases ws) auto
  with Cons show ?thesis by (simp add: Let_def)
qed

text \<open>
  Claim C9, as amended: a collection of errors of length exactly one is handled as its
  single element, absent or not. A collection of any other length has its absent entries
  filtered out; when none remains the construction yields the absent value, and
  otherwise the texts of the remaining errors, joined with a comma and a space, are the
  text of a new foreign error, which is the cause of the node.
\<close>

theorem New_collection:
  "New x caller [ErrorsV [v]] = New x caller [ErrorV v] \<and>
   prepareProperty x e (ErrorsV [v]) = prepareProperty x e (ErrorV v) \<and>
   (length vs \<noteq> 1 \<longrightarrow>
      New x caller [ErrorsV vs] =
        (if filter (\<lambda>v. v \<noteq> nil) vs = [] then Return nil
         else Return (PtrError (Error [] 0 (caller 2)
                (Foreign (Join (map error_text (filter (\<lambda>v. v \<noteq> nil) vs)) '', ''))))))"
  by (simp add: New_def NewLevel_def prepareProperty_errors)

text \<open>A collection of three errors, and a collection of one.\<close>

theorem New_collection_witness:
  "New demo_eno demo_caller [ErrorsV [Foreign ''a'', Foreign ''b'', Foreign ''c'']] =
     Return (PtrError (Error [] 0 ''main.run (main.go:10)'' (Foreign ''a, b, c''))) \<and>
   New demo_eno demo_caller [ErrorsV [Foreign ''a'']] =
     Return (PtrError (Error [] 0 ''main.run (main.go:10)'' (Foreign ''a'')))"
  using New_collection [where x = demo_eno and caller = demo_caller
                          and vs = "[Foreign ''a'', Foreign ''b'', Foreign ''c'']"
                          and v = "Foreign ''a''"]
  by (simp add: demo_caller_def New_def NewLevel_def)

text \<open>
  Claim C9 as stated fails: a collection of a node and nil has exactly one non-absent
  element, and the cause of the result is a new foreign error with the node's text, not
  the node, which is the cause when the node is given alone.
\<close>

theorem New_collection_counterexample:
  "New demo_eno demo_caller [ErrorsV [PtrError (Error ''A'' 7 ''p'' nil), nil]] =
     Return (PtrError (Error [] 0 ''main.run (main.go:10)''
               (Foreign ''op: A, code: 7, source: p; op: A; code: 7''))) \<and>
   New demo_eno demo_caller [ErrorV (PtrError (Error ''A'' 7 ''p'' nil))] =
     Return (PtrError (Error [] 0 ''main.run (main.go:10)'' (PtrError (Error ''A'' 7 ''p'' nil))))"
  by (simp add: New_def NewLevel_def demo_caller_def Itoa_def digits.simps)

subsection \<open>Matching\<close>

lemma errors_is_no_cause_aux:
  assumes "errors_is err target = Some b"
  shows "\<forall>e. err = PtrError e \<longrightarrow> Err e = nil \<longrightarrow> target = PtrError e"
proof (rule errors_is.raw_induct
    [where P = "\<lambda>err target b. \<forall>e. err = PtrError e \<longrightarrow> Err e = nil \<longrightarrow> target = PtrError e",
     OF _ assms])
  fix f err target b
  assume IH: "\<And>err target b. f err target = Some b \<Longrightarrow>
                \<forall>e. err = PtrError e \<longrightarrow> Err e = nil \<longrightarrow> target = PtrError e"
    and step: "(if err = target then Some True
                else case err of
                       PtrError e \<Rightarrow>
                         (let err' = Error_Unwrap e
                          in if err' = nil then Some False else f err' target)
                     | _ \<Rightarrow> Some False) = Some b"
  show "\<forall>e. err = PtrError e \<longrightarrow> Err e = nil \<longrightarrow> target = PtrError e"
  proof (intro allI impI)
    fix e
    assume e: "err = PtrError e" "Err e = nil"
    show "target = PtrError e"
    proof (rule ccontr)
      assume ne: "target \<noteq> PtrError e"
      with e step have "f (PtrError e) target = Some b"
        by (simp add: Error_Unwrap_def)
      from IH [OF this] e ne show False by simp
    qed
  qed
qed

lemma errors_is_no_cause:
  "Err e = nil \<Longrightarrow> target \<noteq> PtrError e \<Longrightarrow> errors_is (PtrError e) target = None"
proof (cases "errors_is (PtrError e) target")
  case None
  then show ?thesis .
next
  case (Some b)
  assume "Err e = nil" "target \<noteq> PtrError e"
  with errors_is_no_cause_aux [OF Some] show ?thesis by simp
qed

lemma Unwrap_iterate: "Err e = nil \<Longrightarrow> (Unwrap ^^ k) (PtrError e) = PtrError e"
  by (induction k) (simp_all add: Unwrap_def Error_Unwrap_def)

text \<open>The loop does return on other inputs.\<close>

lemma Is_terminates_examples:
  "Is (PtrError e) (PtrError e) = Some True"
  "Is (PtrError (Error ''A'' 1 ''p'' (Foreign ''boom''))) (Foreign ''boom'') = Some True"
  "Is (PtrError (Error ''A'' 1 ''p'' (Foreign ''boom''))) (Foreign ''bang'') = Some False"
  by (simp_all add: Is_def errors_is.simps Error_Unwrap_def)

text \<open>
  Claim C10, as amended: a node with no cause is a fixed point of unwrapping, so that
  unwrapping it any number of times yields the node and never nil; and \<open>Is\<close> on such a
  node does not return for any target that is neither nil nor the node.
\<close>

theorem Is_no_cause_diverges:
  "Err e = nil \<Longrightarrow>
   Unwrap (PtrError e) = PtrError e \<and>
   (\<forall>k. (Unwrap ^^ k) (PtrError e) = PtrError e \<and> (Unwrap ^^ k) (PtrError e) \<noteq> nil) \<and>
   (\<forall>target. target \<noteq> nil \<and> target \<noteq> PtrError e \<longrightarrow> Is (PtrError e) target = None)"
  using Unwrap_iterate [of e] errors_is_no_cause [of e]
  by (auto simp: Is_def Unwrap_def Error_Unwrap_def)

theorem Is_no_cause_diverges_witness:
  "Unwrap (PtrError (Error ''A'' 1 ''p'' nil)) = PtrError (Error ''A'' 1 ''p'' nil) \<and>
   Is (PtrError (Error ''A'' 1 ''p'' nil)) (Foreign ''boom'') = None"
  using Is_no_cause_diverges [of "Error ''A'' 1 ''p'' nil"]
  by simp

text \<open>
  Claim C10 as stated fails for the target nil, which is not equal to the node:
  \<open>errors.Is\<close> tests for a nil target before its loop and returns false.
\<close>

theorem Is_nil_target_counterexample:
  "Err (Error ''A'' 1 ''p'' nil) = nil \<and> nil \<noteq> PtrError (Error ''A'' 1 ''p'' nil) \<and>
   Is (PtrError (Error ''A'' 1 ''p'' nil)) nil = Some False"
  by (simp add: Is_def)

end
